theory Spec2Isabelle
  imports Main "HOL-Library.Sublist"
begin

section \<open>Time\<close>

text \<open>
  The program keeps every timestamp as a string in the format
  \<^verbatim>\<open>%Y-%m-%d %H:%M:%S\<close> and reads the clock with
  \<^verbatim>\<open>datetime.datetime.now()\<close>, which has microsecond resolution.

  A stored timestamp string is represented by the number of whole seconds it denotes
  (\<open>timestamp\<close>); a clock reading is a number of microseconds (\<open>instant\<close>), both
  counted from one common origin of the naive local calendar.
  \<open>strptime\<close> reads a stored string as an instant, \<open>strftime\<close> writes an instant as a
  string and thereby drops the microseconds. The \<^verbatim>\<open>.days\<close> attribute of a
  difference of two instants is the floor of the difference in days (Python normalises a
  negative \<^verbatim>\<open>timedelta\<close> to negative days and a non-negative rest).
  \<^verbatim>\<open>total_seconds()\<close> is only ever compared with whole numbers of seconds;
  \<open>seconds n\<close> is that bound in microseconds.

  Two strings that \<^verbatim>\<open>strptime\<close> reads as one instant (a month written
  \<^verbatim>\<open>4\<close> or \<^verbatim>\<open>04\<close>) are one value here. Where the program compares
  the strings themselves (the duplicate tests of lines 860 and 876, the sort of
  \<^verbatim>\<open>read_back_reminders\<close>) the model compares the instants; the two agree on
  strings in the zero-padded format that \<^verbatim>\<open>strftime\<close> writes and the prompts
  ask for.
\<close>

type_synonym timestamp = int
type_synonym instant = int

definition strptime :: "timestamp \<Rightarrow> instant" where
  "strptime s = s * 1000000"

definition strftime :: "instant \<Rightarrow> timestamp" where
  "strftime i = i div 1000000"

definition days :: "int \<Rightarrow> int" where
  "days d = d div 86400000000"

definition seconds :: "int \<Rightarrow> int" where
  "seconds n = n * 1000000"

text \<open>
  A time string that arrives from outside (the \<^verbatim>\<open>suggested_time\<close> field of an
  intent) may not be in the format: \<open>Parsed t\<close> is a string that
  \<^verbatim>\<open>datetime.strptime\<close> accepts, with value \<open>t\<close>; \<open>Unparsable s\<close> is a string on
  which it raises \<^verbatim>\<open>ValueError\<close>.
\<close>

datatype timestr = Parsed timestamp | Unparsable string

section \<open>Strings\<close>

text \<open>
  \<^verbatim>\<open>str.lower()\<close>, \<^verbatim>\<open>str.strip()\<close> and \<^verbatim>\<open>str.split()\<close> on
  ASCII text; \<^verbatim>\<open>a in b\<close> on two strings is \<open>sublist a b\<close> (a contiguous
  occurrence). Characters outside ASCII are left as they are: Python also lowers capitals
  outside ASCII and takes some characters outside ASCII (U+0085, U+00A0) for white space, so
  texts with such characters are outside this model. No character outside ASCII lowers to one
  of the letters of "yes".
\<close>

definition lower_char :: "char \<Rightarrow> char" where
  "lower_char c =
     (let n = (of_char c :: nat) in if 65 \<le> n \<and> n \<le> 90 then char_of (n + 32) else c)"

definition lower :: "string \<Rightarrow> string" where
  "lower s = map lower_char s"

definition is_space :: "char \<Rightarrow> bool" where
  "is_space c =
     (let n = (of_char c :: nat) in n = 32 \<or> (9 \<le> n \<and> n \<le> 13) \<or> (28 \<le> n \<and> n \<le> 31))"

definition strip :: "string \<Rightarrow> string" where
  "strip s = rev (dropWhile is_space (rev (dropWhile is_space s)))"

fun split_from :: "string \<Rightarrow> string \<Rightarrow> string list" where
  "split_from cur [] = (if cur = [] then [] else [cur])"
| "split_from cur (c # cs) =
     (if is_space c then (if cur = [] then split_from [] cs else cur # split_from [] cs)
      else split_from (cur @ [c]) cs)"

definition split_ws :: "string \<Rightarrow> string list" where
  "split_ws s = split_from [] s"

section \<open>The memory\<close>

text \<open>
  The entries of the global \<^verbatim>\<open>memory\<close> dictionary. Each JSON object the program
  builds is a record with the keys it writes; \<^verbatim>\<open>status\<close> and
  \<^verbatim>\<open>completed_at\<close> of a reminder are read with \<^verbatim>\<open>.get\<close> and may be
  absent (\<open>None\<close>).
\<close>

record reminder =
  r_message :: string
  r_datetime :: timestamp
  r_created_at :: timestamp
  r_status :: "string option"
  r_completed_at :: "timestamp option"

record event =
  e_description :: string
  e_datetime :: timestamp
  e_created_at :: timestamp

record fact =
  f_content :: string
  f_category :: string
  f_timestamp :: timestamp

record conversation =
  c_text :: string
  c_action :: string
  c_timestamp :: timestamp

record long_term =
  facts :: "fact list"
  preferences :: "string \<rightharpoonup> string"
  events :: "event list"
  reminders :: "reminder list"
  conversations :: "conversation list"

record contextual =
  recent_conversations :: "conversation list"
  active_context :: "string list"
  relevant_facts :: "fact list"
  upcoming_events :: "event list"
  active_reminders :: "reminder list"

section \<open>Intents\<close>

text \<open>
  The JSON object of an intent (\<^verbatim>\<open>action_data\<close>) and its \<^verbatim>\<open>data\<close>
  object, as records of the keys \<^verbatim>\<open>handle_action\<close> reads; a key that is absent
  is \<open>None\<close>. \<^verbatim>\<open>process_with_llm\<close> hands over only objects that have the key
  \<^verbatim>\<open>action\<close>. \<^verbatim>\<open>needs_confirmation\<close> is read with
  \<^verbatim>\<open>.get(..., False)\<close>: absent is \<open>False\<close>.
\<close>

record data_obj =
  d_message :: "string option"
  d_suggested_time :: "timestr option"
  d_type :: "string option"
  d_needs_confirmation :: bool
  d_confirmation_message :: "string option"
  d_content :: "string option"
  d_category :: "string option"
  d_response :: "string option"

record action_data =
  action :: string
  message :: "string option"
  needs_confirmation :: bool
  confirmation_message :: "string option"
  data :: "data_obj option"
  content :: "string option"
  category :: "string option"
  response :: "string option"

section \<open>The state and what the program says\<close>

text \<open>
  The globals \<^verbatim>\<open>memory\<close> (its two tiers), \<^verbatim>\<open>pending_action\<close> and
  \<^verbatim>\<open>is_listening\<close>.
\<close>

record state =
  long_term :: long_term
  contextual :: contextual
  pending_action :: "action_data option"
  is_listening :: bool

text \<open>
  The texts handed to \<^verbatim>\<open>speak\<close> and \<^verbatim>\<open>show_notification\<close>. A fixed
  text is \<open>Text\<close>; a formatted one is the constructor of its template with the values
  put into it (the rendering of numbers and of dates by \<^verbatim>\<open>format_datetime\<close> is
  left out):
  \<^item> \<open>Cleared n\<close>: "I've cleared n active reminder(s)."
  \<^item> \<open>Found n\<close>: "I found n active reminder(s). Would you like me to clear them/it?"
  \<^item> \<open>Event_added m t\<close>: "I've added the event: m for t"
  \<^item> \<open>Reminder_set m t\<close>: "I've set a reminder for m at t"
  \<^item> \<open>Added ty m\<close>: "Added ty: m..."
  \<^item> \<open>Listing ms\<close>: "Here are your active reminders: m at t; ..."
  \<^item> \<open>Already_know c\<close>: "I already know that c. Would you like me to update it with
    any new information?"
  \<^item> \<open>Noted c\<close>: "I've noted that c"
  \<^item> \<open>Remembered c\<close>: "Remembered: c..."
  \<^item> \<open>Based_on r\<close>: "Based on my records, r"
  \<^item> \<open>Reminder_due m\<close>: "Reminder: m"
\<close>

datatype reply =
    Text string
  | Cleared nat
  | Found nat
  | Event_added string timestamp
  | Reminder_set string timestamp
  | Added string string
  | Listing "(string \<times> timestamp) list"
  | Already_know string
  | Noted string
  | Remembered string
  | Based_on string
  | Reminder_due string

datatype emitted = Speak reply | Notification string reply

definition is_active :: "reminder \<Rightarrow> bool" where
  "is_active r = (r_status r = Some ''active'')"

section \<open>update_contextual_memory\<close>

text \<open>
  The contextual tier is recomputed from the long-term tier and one clock reading. The
  slices \<^verbatim>\<open>[-n:]\<close> keep the last \<open>n\<close> elements, \<^verbatim>\<open>[:n]\<close> the first
  \<open>n\<close>. The set \<^verbatim>\<open>recent_topics\<close> is only asked whether one of its members occurs
  in a fact, so the list of the words stands for it. \<^verbatim>\<open>active_context\<close> is never
  written.
\<close>

definition CONTEXT_WINDOW_DAYS :: int where "CONTEXT_WINDOW_DAYS = 7"
definition LONG_TERM_WINDOW_DAYS :: int where "LONG_TERM_WINDOW_DAYS = 365"
definition MAX_CONTEXT_CONVERSATIONS :: nat where "MAX_CONTEXT_CONVERSATIONS = 50"
definition MAX_ACTIVE_CONTEXT :: nat where "MAX_ACTIVE_CONTEXT = 10"

definition last_n :: "nat \<Rightarrow> 'a list \<Rightarrow> 'a list" where
  "last_n n xs = drop (length xs - n) xs"

definition recent_of :: "instant \<Rightarrow> conversation list \<Rightarrow> conversation list" where
  "recent_of now cs =
     last_n MAX_CONTEXT_CONVERSATIONS
       (filter (\<lambda>conv. days (now - strptime (c_timestamp conv)) \<le> CONTEXT_WINDOW_DAYS) cs)"

definition upcoming_of :: "instant \<Rightarrow> event list \<Rightarrow> event list" where
  "upcoming_of now es =
     filter (\<lambda>event. strptime (e_datetime event) - now \<le> seconds 86400) es"

definition recent_topics_of :: "conversation list \<Rightarrow> string list" where
  "recent_topics_of recent = concat (map (\<lambda>conv. split_ws (lower (c_text conv))) (last_n 5 recent))"

definition relevant_of :: "string list \<Rightarrow> fact list \<Rightarrow> fact list" where
  "relevant_of topics fs =
     take MAX_ACTIVE_CONTEXT
       (filter (\<lambda>fact. \<exists>topic \<in> set topics. sublist topic (lower (f_content fact))) fs)"

definition update_contextual_memory :: "instant \<Rightarrow> state \<Rightarrow> state" where
  "update_contextual_memory now st =
     (let lt = long_term st;
          recent = recent_of now (conversations lt)
      in st\<lparr>contextual := (contextual st)\<lparr>
            recent_conversations := recent,
            upcoming_events := upcoming_of now (events lt),
            active_reminders := filter is_active (reminders lt),
            relevant_facts := relevant_of (recent_topics_of recent) (facts lt)\<rparr>\<rparr>)"

section \<open>clear_reminders, clear_all_memory, clean_memory\<close>

text \<open>
  Writing the memory file (\<^verbatim>\<open>save_memory\<close>) and the displays
  (\<^verbatim>\<open>update_intent_display\<close>, \<^verbatim>\<open>display_relevant_memories\<close>,
  \<^verbatim>\<open>display_weekly_calendar\<close>, \<^verbatim>\<open>get_memory_summary\<close>) catch their
  own errors and change neither the memory nor the pending action; they are left out.
  Each function takes the clock reading \<open>now\<close> of its call.

  \<^verbatim>\<open>clear_reminders\<close> and \<^verbatim>\<open>check_reminders\<close> complete the reminder
  dictionaries in place, and the lists of the contextual tier hold the same dictionaries:
  in the program \<^verbatim>\<open>contextual.active_reminders\<close> shows such a completion at once,
  here the contextual tier stays as it was last computed, until
  \<^verbatim>\<open>update_contextual_memory\<close> runs again. The long-term tier is the same in
  both.
\<close>

definition no_reminders_to_clear :: string where
  "no_reminders_to_clear = ''You don't have any active reminders to clear.''"

definition no_reminders_at_the_moment :: string where
  "no_reminders_at_the_moment = ''You don't have any active reminders at the moment.''"

definition memory_cleared :: string where
  "memory_cleared = ''I've cleared all your memories. We're starting fresh.''"

definition ask_clear_everything :: string where
  "ask_clear_everything =
     ''I found several items in your memory. Would you like me to clear everything? This will remove all reminders, events, facts, and conversation history.''"

definition time_has_passed :: string where
  "time_has_passed =
     ''I notice this time has already passed. Would you like me to set this for tomorrow instead?''"

definition default_confirmation :: string where
  "default_confirmation = ''Would you like me to set this reminder?''"

definition event_already_scheduled :: string where
  "event_already_scheduled =
     ''I notice you already have this event scheduled. Would you like me to update it instead?''"

definition reminder_already_set :: string where
  "reminder_already_set =
     ''I notice you already have this reminder set. Would you like me to update it instead?''"

definition complete :: "instant \<Rightarrow> reminder \<Rightarrow> reminder" where
  "complete now r = r\<lparr>r_status := Some ''completed'', r_completed_at := Some (strftime now)\<rparr>"

definition clear_reminders :: "instant \<Rightarrow> state \<Rightarrow> state \<times> reply" where
  "clear_reminders now st =
     (let lt = long_term st;
          active = filter is_active (reminders lt)
      in if active = [] then (st, Text no_reminders_to_clear)
         else (st\<lparr>long_term := lt\<lparr>reminders :=
                  map (\<lambda>r. if is_active r then complete now r else r) (reminders lt)\<rparr>\<rparr>,
               Cleared (length active)))"

definition clear_all_memory :: "state \<Rightarrow> state \<times> reply" where
  "clear_all_memory st =
     (st\<lparr>long_term := (long_term st)\<lparr>
          reminders := [], facts := [], events := [],
          preferences := Map.empty, conversations := []\<rparr>\<rparr>,
      Text memory_cleared)"

definition in_long_term_window :: "instant \<Rightarrow> timestamp \<Rightarrow> bool" where
  "in_long_term_window now t = (days (now - strptime t) < LONG_TERM_WINDOW_DAYS)"

fun unique_facts :: "string list \<Rightarrow> fact list \<Rightarrow> fact list" where
  "unique_facts seen [] = []"
| "unique_facts seen (f # fs) =
     (let c = strip (lower (f_content f))
      in if c \<in> set seen then unique_facts seen fs else f # unique_facts (c # seen) fs)"

definition clean_memory :: "instant \<Rightarrow> state \<Rightarrow> state" where
  "clean_memory now st =
     (let lt = long_term st;
          rs = filter (\<lambda>r. is_active r \<or>
                 (case r_completed_at r of None \<Rightarrow> False
                  | Some c \<Rightarrow> in_long_term_window now c)) (reminders lt);
          es = filter (\<lambda>e. in_long_term_window now (e_datetime e)) (events lt);
          fs = filter (\<lambda>f. in_long_term_window now (f_timestamp f)) (facts lt);
          cs = filter (\<lambda>c. in_long_term_window now (c_timestamp c)) (conversations lt)
      in update_contextual_memory now
           (st\<lparr>long_term := lt\<lparr>reminders := rs, events := es,
                 facts := unique_facts [] fs, conversations := cs\<rparr>\<rparr>))"

section \<open>check_reminders\<close>



section \<open>handle_action\<close>

text \<open>
  \<^verbatim>\<open>handle_action\<close> runs inside one \<^verbatim>\<open>try\<close>; its handler sets
  \<^verbatim>\<open>is_listening\<close> and returns, so what was changed before the exception stays
  changed. \<open>raised\<close> is that handler. The exceptions of the body are the
  \<^verbatim>\<open>KeyError\<close> of a subscript on an absent key and the
  \<^verbatim>\<open>ValueError\<close> of \<^verbatim>\<open>strptime\<close>.
\<close>

definition raised :: "state \<Rightarrow> state \<times> emitted list" where
  "raised st = (st\<lparr>is_listening := True\<rparr>, [])"

definition new_event :: "instant \<Rightarrow> string \<Rightarrow> timestamp \<Rightarrow> event" where
  "new_event now m t = \<lparr>e_description = m, e_datetime = t, e_created_at = strftime now\<rparr>"

definition new_reminder :: "instant \<Rightarrow> string \<Rightarrow> timestamp \<Rightarrow> reminder" where
  "new_reminder now m t =
     \<lparr>r_message = m, r_datetime = t, r_created_at = strftime now,
      r_status = Some ''active'', r_completed_at = None\<rparr>"

definition add_event :: "event \<Rightarrow> state \<Rightarrow> state" where
  "add_event e st = st\<lparr>long_term := (long_term st)\<lparr>events := events (long_term st) @ [e]\<rparr>\<rparr>"

definition add_reminder :: "reminder \<Rightarrow> state \<Rightarrow> state" where
  "add_reminder r st =
     st\<lparr>long_term := (long_term st)\<lparr>reminders := reminders (long_term st) @ [r]\<rparr>\<rparr>"

definition add_fact :: "fact \<Rightarrow> state \<Rightarrow> state" where
  "add_fact f st = st\<lparr>long_term := (long_term st)\<lparr>facts := facts (long_term st) @ [f]\<rparr>\<rparr>"

definition add_conversation :: "conversation \<Rightarrow> state \<Rightarrow> state" where
  "add_conversation c st =
     st\<lparr>long_term := (long_term st)\<lparr>conversations := conversations (long_term st) @ [c]\<rparr>\<rparr>"

text \<open>
  The branch of a confirmed pending \<^verbatim>\<open>set_reminder\<close> (lines 725 to 751). It
  stores \<^verbatim>\<open>suggested_time\<close> without reading it. A pending
  \<^verbatim>\<open>set_reminder\<close> is only ever built after \<^verbatim>\<open>strptime\<close> has accepted
  that string, so the case \<open>Unparsable\<close> does not arise here; the memory holds parsed
  times only, and the case is given the outcome of the handler.
\<close>

definition confirm_set_reminder :: "instant \<Rightarrow> state \<Rightarrow> action_data \<Rightarrow> state \<times> emitted list" where
  "confirm_set_reminder now st p =
     (case data p of None \<Rightarrow> raised st
      | Some reminder_data \<Rightarrow>
     (case d_type reminder_data of None \<Rightarrow> raised st
      | Some ty \<Rightarrow>
     (case d_message reminder_data of None \<Rightarrow> raised st
      | Some m \<Rightarrow>
     (case d_suggested_time reminder_data of None \<Rightarrow> raised st
      | Some (Unparsable s) \<Rightarrow> raised st
      | Some (Parsed t) \<Rightarrow>
          (let (st', rsp) =
                 (if ty = ''event''
                  then (add_event (new_event now m t) st, Event_added m t)
                  else (add_reminder (new_reminder now m t) st, Reminder_set m t))
           in (st'\<lparr>pending_action := None, is_listening := True\<rparr>,
               [Speak rsp, Notification ''Memory Updated'' (Added ty (take 50 m))]))))))"

text \<open>The branch taken when a pending action is held and the text has "yes" (lines 706 to 756).\<close>

definition confirm_pending :: "instant \<Rightarrow> state \<Rightarrow> action_data \<Rightarrow> state \<times> emitted list" where
  "confirm_pending now st p =
     (if action p = ''clear_reminders'' then
        (let (st', rsp) = clear_reminders now st
         in (st'\<lparr>pending_action := None, is_listening := True\<rparr>,
             [Speak rsp, Notification ''Reminders Cleared'' rsp]))
      else if action p = ''clear_all_memory'' then
        (let (st', rsp) = clear_all_memory st
         in (st'\<lparr>pending_action := None, is_listening := True\<rparr>,
             [Speak rsp, Notification ''Memory Cleared'' rsp]))
      else if action p = ''set_reminder'' then confirm_set_reminder now st p
      else (st\<lparr>pending_action := None, is_listening := True\<rparr>, []))"

text \<open>
  The end of \<^verbatim>\<open>handle_action\<close> (lines 957 to 964), reached by the branches that
  do not return early: the memory is cleaned and \<^verbatim>\<open>is_listening\<close> is set.
\<close>

definition finish :: "instant \<Rightarrow> state \<Rightarrow> emitted list \<Rightarrow> state \<times> emitted list" where
  "finish now st out = ((clean_memory now st)\<lparr>is_listening := True\<rparr>, out)"

text \<open>
  The loops that look for a duplicate before an insertion (lines 859 to 865, 875 to 881
  and 906 to 912): each returns at the first entry that matches.
\<close>

definition event_scheduled :: "string \<Rightarrow> timestamp \<Rightarrow> event list \<Rightarrow> bool" where
  "event_scheduled m t es =
     (\<exists>event \<in> set es. lower (e_description event) = lower m \<and> e_datetime event = t)"

definition reminder_is_set :: "string \<Rightarrow> timestamp \<Rightarrow> reminder list \<Rightarrow> bool" where
  "reminder_is_set m t rs =
     (\<exists>reminder \<in> set rs. lower (r_message reminder) = lower m \<and> r_datetime reminder = t)"

definition fact_known :: "string \<Rightarrow> fact list \<Rightarrow> bool" where
  "fact_known c fs = (\<exists>fact \<in> set fs. strip (lower (f_content fact)) = strip (lower c))"

definition pending_set_reminder :: "data_obj \<Rightarrow> string \<Rightarrow> action_data" where
  "pending_set_reminder reminder_data msg =
     \<lparr>action = ''set_reminder'', message = None, needs_confirmation = False,
      confirmation_message = Some msg, data = Some reminder_data,
      content = None, category = None, response = None\<rparr>"

definition set_reminder :: "instant \<Rightarrow> state \<Rightarrow> action_data \<Rightarrow> state \<times> emitted list" where
  "set_reminder now st action_data =
     (case data action_data of None \<Rightarrow> (st, [])
      | Some reminder_data \<Rightarrow>
     (case d_message reminder_data of None \<Rightarrow> (st, [])
      | Some m \<Rightarrow>
     (case d_suggested_time reminder_data of None \<Rightarrow> (st, [])
      | Some (Unparsable s) \<Rightarrow> raised st
      | Some (Parsed t) \<Rightarrow>
          if strptime t < now then
            (st\<lparr>pending_action := Some (pending_set_reminder reminder_data time_has_passed)\<rparr>,
             [Speak (Text time_has_passed)])
          else if d_needs_confirmation reminder_data then
            (let msg = (case d_confirmation_message reminder_data of
                          None \<Rightarrow> default_confirmation | Some c \<Rightarrow> c)
             in (st\<lparr>pending_action := Some (pending_set_reminder reminder_data msg)\<rparr>,
                 [Speak (Text msg)]))
          else
            (case d_type reminder_data of None \<Rightarrow> raised st
             | Some ty \<Rightarrow>
                 if ty = ''event'' then
                   (if event_scheduled m t (events (long_term st))
                    then (st, [Speak (Text event_already_scheduled)])
                    else finish now (add_event (new_event now m t) st)
                           [Speak (Event_added m t),
                            Notification ''Memory Updated'' (Added ty (take 50 m))])
                 else
                   (if reminder_is_set m t (reminders (long_term st))
                    then (st, [Speak (Text reminder_already_set)])
                    else finish now (add_reminder (new_reminder now m t) st)
                           [Speak (Reminder_set m t),
                            Notification ''Memory Updated'' (Added ty (take 50 m))])))))"

definition remember_fact :: "instant \<Rightarrow> state \<Rightarrow> action_data \<Rightarrow> state \<times> emitted list" where
  "remember_fact now st action_data =
     (case content action_data of None \<Rightarrow> (st, [])
      | Some c \<Rightarrow>
     (case category action_data of None \<Rightarrow> (st, [])
      | Some cat \<Rightarrow>
          if fact_known c (facts (long_term st))
          then (st, [Speak (Already_know c)])
          else finish now
                 (add_fact \<lparr>f_content = c, f_category = cat, f_timestamp = strftime now\<rparr> st)
                 [Speak (Noted c), Notification ''Memory Updated'' (Remembered (take 50 c))]))"

text \<open>The branches for a new action (lines 758 to 964).\<close>

definition new_action :: "instant \<Rightarrow> state \<Rightarrow> action_data \<Rightarrow> state \<times> emitted list" where
  "new_action now st action_data =
     (let active = filter is_active (reminders (long_term st)) in
      if action action_data = ''read_back_reminders'' then
        (let rsp = (if active = [] then Text no_reminders_at_the_moment
                    else Listing (map (\<lambda>r. (r_message r, r_datetime r))
                                      (sort_key r_datetime active)))
         in (st\<lparr>is_listening := True\<rparr>, [Speak rsp, Notification ''Active Reminders'' rsp]))
      else if action action_data = ''clear_reminders'' then
        (if active = [] then (st, [Speak (Text no_reminders_to_clear)])
         else if needs_confirmation action_data then
           (st\<lparr>pending_action := Some action_data\<rparr>, [Speak (Found (length active))])
         else
           (let (st', rsp) = clear_reminders now st
            in (st', [Speak rsp, Notification ''Reminders Cleared'' rsp])))
      else if action action_data = ''clear_all_memory'' then
        (if needs_confirmation action_data then
           (st\<lparr>pending_action := Some action_data\<rparr>, [Speak (Text ask_clear_everything)])
         else
           (let (st', rsp) = clear_all_memory st
            in (st', [Speak rsp, Notification ''Memory Cleared'' rsp])))
      else if action action_data = ''set_reminder'' then set_reminder now st action_data
      else if action action_data = ''remember_fact'' then remember_fact now st action_data
      else if action action_data = ''query_memory'' then
        (case response action_data of None \<Rightarrow> (st, [])
         | Some r \<Rightarrow> finish now st [Speak (Based_on r), Notification ''Memory Query'' (Text r)])
      else if action action_data = ''general_query'' then
        (case response action_data of None \<Rightarrow> (st, [])
         | Some r \<Rightarrow> finish now st [Speak (Text r), Notification ''Assistant Response'' (Text r)])
      else finish now st [])"

text \<open>
  \<^verbatim>\<open>handle_action(action_data, original_text)\<close>: the conversation is recorded
  and the contextual tier recomputed first (lines 687 to 695); then a held pending action
  is executed when the lowered text contains "yes", and otherwise the new action is
  handled. All clock readings of one call are taken as the one reading \<open>now\<close>.
\<close>

definition handle_action ::
    "instant \<Rightarrow> state \<Rightarrow> action_data \<Rightarrow> string \<Rightarrow> state \<times> emitted list" where
  "handle_action now st action_data original_text =
     (let st1 = add_conversation
                  \<lparr>c_text = original_text, c_action = action action_data,
                   c_timestamp = strftime now\<rparr> st;
          st2 = update_contextual_memory now st1
      in case pending_action st2 of
           Some p \<Rightarrow>
             if sublist ''yes'' (lower original_text) then confirm_pending now st2 p
             else new_action now st2 action_data
         | None \<Rightarrow> new_action now st2 action_data)"

section \<open>Runs of the dispatcher\<close>

text \<open>
  A sequence of calls of \<^verbatim>\<open>handle_action\<close>, each with its clock reading, its
  intent and its utterance; the state is handed from one call to the next.
\<close>

fun run :: "state \<Rightarrow> (instant \<times> action_data \<times> string) list \<Rightarrow> state" where
  "run st [] = st"
| "run st ((now, a, utterance) # rest) = run (fst (handle_action now st a utterance)) rest"

text \<open>
  \<open>quiet p st steps\<close>: in the run of \<open>steps\<close> from \<open>st\<close>, no call receives a text
  with "yes" while the pending action \<open>p\<close> is the one held.
\<close>

fun quiet :: "action_data \<Rightarrow> state \<Rightarrow> (instant \<times> action_data \<times> string) list \<Rightarrow> bool" where
  "quiet p st [] = True"
| "quiet p st ((now, a, utterance) # rest) =
     (\<not> (pending_action st = Some p \<and> sublist ''yes'' (lower utterance))
      \<and> quiet p (fst (handle_action now st a utterance)) rest)"

text \<open>
  \<open>keep_pending q r\<close> compares two results of one call: it is the result \<open>r\<close> with
  the pending action \<open>q\<close> put back where \<open>r\<close> holds none.
\<close>

definition keep_pending :: "action_data option \<Rightarrow> state \<times> emitted list \<Rightarrow> state \<times> emitted list" where
  "keep_pending q r =
     ((fst r)\<lparr>pending_action :=
         (case pending_action (fst r) of None \<Rightarrow> q | Some x \<Rightarrow> Some x)\<rparr>, snd r)"

section \<open>Concrete states and intents\<close>

text \<open>The globals as the module initialises them (lines 33 to 54).\<close>

definition initial_state :: state where
  "initial_state =
     \<lparr>long_term = \<lparr>facts = [], preferences = Map.empty, events = [], reminders = [],
                    conversations = []\<rparr>,
      contextual = \<lparr>recent_conversations = [], active_context = [], relevant_facts = [],
                     upcoming_events = [], active_reminders = []\<rparr>,
      pending_action = None, is_listening = False\<rparr>"

text \<open>An intent with the key \<^verbatim>\<open>action\<close> and, when set, \<^verbatim>\<open>needs_confirmation\<close>.\<close>

definition bare_intent :: "string \<Rightarrow> bool \<Rightarrow> action_data" where
  "bare_intent a c =
     \<lparr>action = a, message = None, needs_confirmation = c, confirmation_message = None,
      data = None, content = None, category = None, response = None\<rparr>"

definition no_data :: data_obj where
  "no_data =
     \<lparr>d_message = None, d_suggested_time = None, d_type = None, d_needs_confirmation = False,
      d_confirmation_message = None, d_content = None, d_category = None, d_response = None\<rparr>"

text \<open>
  The intents as the system prompt lays them out: a reminder with its fields in
  \<^verbatim>\<open>data\<close>, a fact with \<^verbatim>\<open>content\<close> and \<^verbatim>\<open>category\<close> in
  \<^verbatim>\<open>data\<close>, an answer with \<^verbatim>\<open>response\<close> in \<^verbatim>\<open>data\<close>.
\<close>

definition remind_intent :: "string \<Rightarrow> timestamp \<Rightarrow> bool \<Rightarrow> action_data" where
  "remind_intent m t c =
     (bare_intent ''set_reminder'' False)
       \<lparr>data := Some (no_data\<lparr>d_message := Some m, d_suggested_time := Some (Parsed t),
                               d_type := Some ''reminder'', d_needs_confirmation := c\<rparr>)\<rparr>"

definition fact_intent :: "string \<Rightarrow> string \<Rightarrow> action_data" where
  "fact_intent c cat =
     (bare_intent ''remember_fact'' False)
       \<lparr>data := Some (no_data\<lparr>d_content := Some c, d_category := Some cat\<rparr>)\<rparr>"

definition answer_intent :: "string \<Rightarrow> action_data" where
  "answer_intent r =
     (bare_intent ''general_query'' False)\<lparr>data := Some (no_data\<lparr>d_response := Some r\<rparr>)\<rparr>"

text \<open>Three active reminders, due after 5000, 6000 and 7000 seconds.\<close>

definition three_reminders :: "reminder list" where
  "three_reminders =
     [new_reminder (seconds 100) ''call mom'' 5000,
      new_reminder (seconds 100) ''buy milk'' 6000,
      new_reminder (seconds 100) ''pay rent'' 7000]"

definition three_active :: state where
  "three_active = initial_state\<lparr>long_term := (long_term initial_state)\<lparr>reminders := three_reminders\<rparr>\<rparr>"

text \<open>The same memory while the confirmation of \<^verbatim>\<open>clear_reminders\<close> is awaited.\<close>

definition awaiting_clear :: state where
  "awaiting_clear = three_active\<lparr>pending_action := Some (bare_intent ''clear_reminders'' True)\<rparr>"

text \<open>
  The pending action that a reminder "call mom" with \<^verbatim>\<open>needs_confirmation\<close>
  leaves, and the initial memory while its confirmation is awaited.
\<close>

definition call_mom_pending :: action_data where
  "call_mom_pending =
     pending_set_reminder
       (no_data\<lparr>d_message := Some ''call mom'', d_suggested_time := Some (Parsed 5000),
                  d_type := Some ''reminder'', d_needs_confirmation := True\<rparr>)
       default_confirmation"

definition awaiting_reminder :: state where
  "awaiting_reminder = initial_state\<lparr>pending_action := Some call_mom_pending\<rparr>"

text \<open>A memory with a preference and a fact.\<close>

definition tea_fact :: fact where
  "tea_fact = \<lparr>f_content = ''I like tea'', f_category = ''preference'', f_timestamp = 100\<rparr>"

definition with_preferences :: state where
  "with_preferences =
     initial_state\<lparr>long_term := (long_term initial_state)
        \<lparr>facts := [tea_fact], preferences := [''voice'' \<mapsto> ''Alex'']\<rparr>\<rparr>"

text \<open>The same memory while the confirmation of \<^verbatim>\<open>clear_all_memory\<close> is awaited.\<close>

definition awaiting_clear_all :: state where
  "awaiting_clear_all =
     with_preferences\<lparr>pending_action := Some (bare_intent ''clear_all_memory'' True)\<rparr>"

text \<open>A memory with one event at 1000 seconds.\<close>

definition dentist :: event where
  "dentist = new_event (seconds 100) ''dentist'' 1000"

definition with_dentist :: state where
  "with_dentist = initial_state\<lparr>long_term := (long_term initial_state)\<lparr>events := [dentist]\<rparr>\<rparr>"

text \<open>
  A memory 400 days after the origin: entries from the first and second day, and entries
  from day 300 and later.
\<close>

definition day :: "int \<Rightarrow> timestamp" where
  "day n = n * 86400"

definition old_active :: reminder where
  "old_active = new_reminder (seconds 0) ''renew passport'' (day 1)"

definition old_completed :: reminder where
  "old_completed = complete (seconds (day 2)) (new_reminder (seconds 0) ''send letter'' (day 1))"

definition fresh_completed :: reminder where
  "fresh_completed = complete (seconds (day 300)) (new_reminder (seconds 0) ''book flight'' (day 299))"

definition aged_memory :: state where
  "aged_memory =
     initial_state\<lparr>long_term :=
       \<lparr>facts = [tea_fact, \<lparr>f_content = ''I moved to Lyon'', f_category = ''personal'',
                              f_timestamp = day 350\<rparr>],
        preferences = [''voice'' \<mapsto> ''Alex''],
        events = [dentist, new_event (seconds (day 390)) ''concert'' (day 410)],
        reminders = [old_active, old_completed, fresh_completed],
        conversations = [\<lparr>c_text = ''hello'', c_action = ''general_query'', c_timestamp = day 1\<rparr>,
                         \<lparr>c_text = ''any plans'', c_action = ''query_memory'',
                          c_timestamp = day 399\<rparr>]\<rparr>\<rparr>"

section \<open>Facts about the parts\<close>

lemma update_contextual_memory_fields:
  "long_term (update_contextual_memory now st) = long_term st"
  "pending_action (update_contextual_memory now st) = pending_action st"
  "is_listening (update_contextual_memory now st) = is_listening st"
  by (simp_all add: update_contextual_memory_def Let_def)

lemma days_less_iff: "days d < LONG_TERM_WINDOW_DAYS \<longleftrightarrow> d < seconds (365 * 86400)"
proof -
  have eq: "d = 86400000000 * (d div 86400000000) + d mod 86400000000" by simp
  have lo: "0 \<le> d mod 86400000000" by simp
  have hi: "d mod 86400000000 < 86400000000" by simp
  show ?thesis
    unfolding days_def LONG_TERM_WINDOW_DAYS_def seconds_def
    using eq lo hi by linarith
qed

lemma set_unique_facts: "set (unique_facts seen fs) \<subseteq> set fs"
  by (induction fs arbitrary: seen) (auto simp: Let_def)

lemma long_term_clean_memory:
  "long_term (clean_memory now st) =
     (long_term st)\<lparr>
        reminders := filter (\<lambda>r. is_active r \<or>
                 (case r_completed_at r of None \<Rightarrow> False
                  | Some c \<Rightarrow> in_long_term_window now c)) (reminders (long_term st)),
        events := filter (\<lambda>e. in_long_term_window now (e_datetime e)) (events (long_term st)),
        facts := unique_facts []
                   (filter (\<lambda>f. in_long_term_window now (f_timestamp f)) (facts (long_term st))),
        conversations :=
          filter (\<lambda>c. in_long_term_window now (c_timestamp c)) (conversations (long_term st))\<rparr>"
  by (simp add: clean_memory_def Let_def update_contextual_memory_fields)

lemma active_after_clean_memory:
  "filter is_active (reminders (long_term (clean_memory now st)))
     = filter is_active (reminders (long_term st))"
  by (auto simp: long_term_clean_memory intro!: filter_cong)

lemma long_term_recorded:
  "long_term (update_contextual_memory now (add_conversation c st))
     = (long_term st)\<lparr>conversations := conversations (long_term st) @ [c]\<rparr>"
  by (simp add: update_contextual_memory_fields add_conversation_def)


subsection \<open>A pending action and a text without "yes"\<close>

text \<open>
  None of the branches for a new action reads the pending action: with another pending
  action held, or none, a call gives the same memory and says the same, and holds
  afterwards the pending action the new intent stored, or else the one held before.
\<close>

lemma pending_update_commutes:
  "update_contextual_memory now (st\<lparr>pending_action := q\<rparr>) = (update_contextual_memory now st)\<lparr>pending_action := q\<rparr>"
  "clean_memory now (st\<lparr>pending_action := q\<rparr>) = (clean_memory now st)\<lparr>pending_action := q\<rparr>"
  "add_conversation c (st\<lparr>pending_action := q\<rparr>) = (add_conversation c st)\<lparr>pending_action := q\<rparr>"
  "add_event e (st\<lparr>pending_action := q\<rparr>) = (add_event e st)\<lparr>pending_action := q\<rparr>"
  "add_reminder r (st\<lparr>pending_action := q\<rparr>) = (add_reminder r st)\<lparr>pending_action := q\<rparr>"
  "add_fact f (st\<lparr>pending_action := q\<rparr>) = (add_fact f st)\<lparr>pending_action := q\<rparr>"
  by (simp_all add: update_contextual_memory_def clean_memory_def add_conversation_def
      add_event_def add_reminder_def add_fact_def Let_def)

lemma pending_action_kept:
  "pending_action (clean_memory now st) = pending_action st"
  "pending_action (add_conversation c st) = pending_action st"
  "pending_action (add_event e st) = pending_action st"
  "pending_action (add_reminder r st) = pending_action st"
  "pending_action (add_fact f st) = pending_action st"
  by (simp_all add: update_contextual_memory_def clean_memory_def add_conversation_def
      add_event_def add_reminder_def add_fact_def Let_def)

lemma finish_pending:
  "finish now (st\<lparr>pending_action := q\<rparr>) out = keep_pending q (finish now (st\<lparr>pending_action := None\<rparr>) out)"
  by (simp add: finish_def keep_pending_def pending_update_commutes pending_action_kept)

lemma keep_pending_leaves:
  "keep_pending q (st\<lparr>pending_action := None\<rparr>, out) = (st\<lparr>pending_action := q\<rparr>, out)"
  "keep_pending q (st\<lparr>pending_action := Some x\<rparr>, out) = (st\<lparr>pending_action := Some x\<rparr>, out)"
  "keep_pending q (raised (st\<lparr>pending_action := None\<rparr>)) = raised (st\<lparr>pending_action := q\<rparr>)"
  by (simp_all add: keep_pending_def raised_def)

lemma set_reminder_pending:
  "set_reminder now (st\<lparr>pending_action := q\<rparr>) a = keep_pending q (set_reminder now (st\<lparr>pending_action := None\<rparr>) a)"
proof (cases "data a")
  case None
  then show ?thesis by (simp add: set_reminder_def keep_pending_leaves)
next
  case (Some rd)
  note rd = this
  show ?thesis
  proof (cases "d_message rd")
    case None
    with rd show ?thesis by (simp add: set_reminder_def keep_pending_leaves)
  next
    case (Some m)
    note m = this
    show ?thesis
    proof (cases "d_suggested_time rd")
      case None
      with rd m show ?thesis by (simp add: set_reminder_def keep_pending_leaves)
    next
      case (Some ts)
      note ts = this
      show ?thesis
      proof (cases ts)
        case (Unparsable s)
        with rd m ts show ?thesis by (simp add: set_reminder_def keep_pending_leaves)
      next
        case (Parsed t)
        note t = this
        show ?thesis
        proof (cases "strptime t < now \<or> d_needs_confirmation rd")
          case True
          with rd m ts t show ?thesis
            by (auto simp: set_reminder_def keep_pending_leaves Let_def)
        next
          case False
          note nc = this
          show ?thesis
          proof (cases "d_type rd")
            case None
            with rd m ts t nc show ?thesis by (simp add: set_reminder_def keep_pending_leaves)
          next
            case (Some ty)
            with rd m ts t nc show ?thesis
              by (simp add: set_reminder_def keep_pending_leaves pending_update_commutes
                  finish_pending [where q = q])
          qed
        qed
      qed
    qed
  qed
qed

lemma remember_fact_pending:
  "remember_fact now (st\<lparr>pending_action := q\<rparr>) a = keep_pending q (remember_fact now (st\<lparr>pending_action := None\<rparr>) a)"
proof (cases "content a")
  case None
  then show ?thesis by (simp add: remember_fact_def keep_pending_leaves)
next
  case (Some c)
  note c = this
  show ?thesis
  proof (cases "category a")
    case None
    with c show ?thesis by (simp add: remember_fact_def keep_pending_leaves)
  next
    case (Some cat)
    with c show ?thesis
      by (simp add: remember_fact_def keep_pending_leaves pending_update_commutes
          finish_pending [where q = q])
  qed
qed

lemma clear_pending_commutes:
  "clear_reminders now (st\<lparr>pending_action := q\<rparr>) =
     ((fst (clear_reminders now st))\<lparr>pending_action := q\<rparr>, snd (clear_reminders now st))"
  "clear_all_memory (st\<lparr>pending_action := q\<rparr>) =
     ((fst (clear_all_memory st))\<lparr>pending_action := q\<rparr>, snd (clear_all_memory st))"
  "pending_action (fst (clear_reminders now st)) = pending_action st"
  "pending_action (fst (clear_all_memory st)) = pending_action st"
  by (simp_all add: clear_reminders_def clear_all_memory_def Let_def)

lemma new_action_pending:
  "new_action now (st\<lparr>pending_action := q\<rparr>) a = keep_pending q (new_action now (st\<lparr>pending_action := None\<rparr>) a)"
proof -
  consider (rb) "action a = ''read_back_reminders''"
    | (cr) "action a = ''clear_reminders''"
    | (ca) "action a = ''clear_all_memory''"
    | (sr) "action a = ''set_reminder''"
    | (rf) "action a = ''remember_fact''"
    | (other) "action a \<noteq> ''read_back_reminders''" "action a \<noteq> ''clear_reminders''"
        "action a \<noteq> ''clear_all_memory''" "action a \<noteq> ''set_reminder''"
        "action a \<noteq> ''remember_fact''"
    by blast
  then show ?thesis
  proof cases
    case rb
    then show ?thesis by (simp add: new_action_def keep_pending_def Let_def)
  next
    case cr
    then show ?thesis
      by (simp add: new_action_def keep_pending_def Let_def clear_pending_commutes split_beta)
  next
    case ca
    then show ?thesis
      by (simp add: new_action_def keep_pending_def Let_def clear_pending_commutes split_beta)
  next
    case sr
    then show ?thesis by (simp add: new_action_def Let_def set_reminder_pending [where q = q])
  next
    case rf
    then show ?thesis by (simp add: new_action_def Let_def remember_fact_pending [where q = q])
  next
    case other
    then show ?thesis
      by (cases "response a")
        (simp_all add: new_action_def Let_def finish_pending [where q = q] keep_pending_leaves)
  qed
qed

lemma handle_action_pending:
  assumes "\<not> sublist ''yes'' (lower text)"
  shows "handle_action now (st\<lparr>pending_action := q\<rparr>) a text
         = keep_pending q (handle_action now (st\<lparr>pending_action := None\<rparr>) a text)"
proof -
  let ?c = "\<lparr>c_text = text, c_action = action a, c_timestamp = strftime now\<rparr>"
  let ?st2 = "update_contextual_memory now (add_conversation ?c st)"
  have l: "handle_action now (st\<lparr>pending_action := q\<rparr>) a text
             = new_action now (?st2\<lparr>pending_action := q\<rparr>) a"
    using assms by (simp add: handle_action_def pending_update_commutes Let_def split: option.splits)
  have r: "handle_action now (st\<lparr>pending_action := None\<rparr>) a text
             = new_action now (?st2\<lparr>pending_action := None\<rparr>) a"
    by (simp add: handle_action_def pending_update_commutes Let_def)
  show ?thesis unfolding l r by (rule new_action_pending)
qed

lemma run_quiet:
  assumes "quiet p (st\<lparr>pending_action := Some p\<rparr>) steps"
  shows "long_term (run (st\<lparr>pending_action := Some p\<rparr>) steps)
           = long_term (run (st\<lparr>pending_action := None\<rparr>) steps)"
  using assms
proof (induction steps arbitrary: st)
  case Nil
  show ?case by simp
next
  case (Cons step steps)
  obtain now a utt where step: "step = (now, a, utt)" by (cases step) auto
  let ?base = "handle_action now (st\<lparr>pending_action := None\<rparr>) a utt"
  let ?b = "fst ?base"
  from Cons.prems step have no: "\<not> sublist ''yes'' (lower utt)" by simp
  have held: "handle_action now (st\<lparr>pending_action := Some p\<rparr>) a utt = keep_pending (Some p) ?base"
    by (rule handle_action_pending [OF no])
  from Cons.prems step
  have q: "quiet p (fst (handle_action now (st\<lparr>pending_action := Some p\<rparr>) a utt)) steps"
    by simp
  show ?case
  proof (cases "pending_action ?b")
    case None
    then have st': "fst (handle_action now (st\<lparr>pending_action := Some p\<rparr>) a utt)
                      = ?b\<lparr>pending_action := Some p\<rparr>"
      by (simp add: held keep_pending_def)
    from None have b: "?b\<lparr>pending_action := None\<rparr> = ?b" by simp
    from q have "quiet p (?b\<lparr>pending_action := Some p\<rparr>) steps" by (simp only: st')
    from Cons.IH [OF this] show ?thesis by (simp add: step st' b)
  next
    case (Some x)
    then have "fst (handle_action now (st\<lparr>pending_action := Some p\<rparr>) a utt) = ?b"
      by (simp add: held keep_pending_def)
    then show ?thesis by (simp add: step)
  qed
qed

subsection \<open>Active reminders under a new action\<close>

lemma active_prefix_finish:
  "prefix xs (filter is_active (reminders (long_term st))) \<Longrightarrow>
   prefix xs (filter is_active (reminders (long_term (fst (finish now st out)))))"
  by (simp add: finish_def active_after_clean_memory)

lemma active_prefix_set_reminder:
  "prefix (filter is_active (reminders (long_term st)))
          (filter is_active (reminders (long_term (fst (set_reminder now st a)))))"
  by (auto simp: set_reminder_def raised_def Let_def add_event_def add_reminder_def
      intro!: active_prefix_finish split: option.splits timestr.splits)

lemma active_prefix_remember_fact:
  "prefix (filter is_active (reminders (long_term st)))
          (filter is_active (reminders (long_term (fst (remember_fact now st a)))))"
  by (auto simp: remember_fact_def add_fact_def intro!: active_prefix_finish split: option.splits)

lemma active_prefix_new_action:
  assumes "action a \<noteq> ''clear_reminders''" and "action a \<noteq> ''clear_all_memory''"
  shows "prefix (filter is_active (reminders (long_term st)))
                (filter is_active (reminders (long_term (fst (new_action now st a)))))"
  using assms
  by (auto simp: new_action_def Let_def active_prefix_set_reminder active_prefix_remember_fact
      intro!: active_prefix_finish split: option.splits)

subsection \<open>Evaluation of the concrete runs\<close>

lemma yes_in_yes: "sublist ''yes'' (lower ''yes'')"
  by code_simp

lemma yes_in_yes_please: "sublist ''yes'' (lower ''Yes please'')"
  by code_simp


lemma yes_in_that_was_all: "sublist ''yes'' (lower ''yes that was all'')"
  by code_simp

lemma no_yes_in_no_thanks: "\<not> sublist ''yes'' (lower ''no thanks'')"
  by code_simp

lemma no_yes_in_forget: "\<not> sublist ''yes'' (lower ''forget everything'')"
  by code_simp

lemma no_yes_in_clear: "\<not> sublist ''yes'' (lower ''clear my reminders'')"
  by code_simp

lemma no_yes_in_remind: "\<not> sublist ''yes'' (lower ''remind me to call mom'')"
  by code_simp

lemma no_yes_in_remind_dad: "\<not> sublist ''yes'' (lower ''remind me to call dad'')"
  by code_simp

lemma lower_messages:
  "lower ''call mom'' = ''call mom''" "lower ''buy milk'' = ''buy milk''"
  "lower ''pay rent'' = ''pay rent''" "lower ''call dad'' = ''call dad''"
  by code_simp+

lemmas scenario_defs = initial_state_def bare_intent_def no_data_def remind_intent_def
  fact_intent_def answer_intent_def three_reminders_def three_active_def awaiting_clear_def
  tea_fact_def with_preferences_def dentist_def with_dentist_def awaiting_clear_all_def
  call_mom_pending_def awaiting_reminder_def

lemmas eval_defs = handle_action_def new_action_def confirm_pending_def
  confirm_set_reminder_def set_reminder_def remember_fact_def finish_def raised_def
  clear_reminders_def clear_all_memory_def add_conversation_def add_event_def add_reminder_def
  add_fact_def pending_set_reminder_def new_reminder_def new_event_def complete_def
  is_active_def event_scheduled_def reminder_is_set_def fact_known_def
  update_contextual_memory_fields long_term_clean_memory pending_action_kept
  in_long_term_window_def days_def strptime_def strftime_def seconds_def
  LONG_TERM_WINDOW_DAYS_def Let_def

section \<open>The sweeper\<close>

text \<open>
  C6. After a pass of \<^verbatim>\<open>clean_memory\<close> at \<open>now\<close>, every reminder left with status
  completed has a \<^verbatim>\<open>completed_at\<close> less than 365 days before \<open>now\<close>, every event,
  fact and conversation left is less than 365 days old, and the active reminders are the
  same as before, whatever their age.
\<close>

theorem clean_memory_retention:
  "let lt' = long_term (clean_memory now st) in
     (\<forall>r \<in> set (reminders lt'). r_status r = Some ''completed'' \<longrightarrow>
        (\<exists>c. r_completed_at r = Some c \<and> now - strptime c < seconds (365 * 86400)))
   \<and> (\<forall>e \<in> set (events lt'). now - strptime (e_datetime e) < seconds (365 * 86400))
   \<and> (\<forall>f \<in> set (facts lt'). now - strptime (f_timestamp f) < seconds (365 * 86400))
   \<and> (\<forall>c \<in> set (conversations lt'). now - strptime (c_timestamp c) < seconds (365 * 86400))
   \<and> filter is_active (reminders lt') = filter is_active (reminders (long_term st))"
proof -
  let ?lt = "long_term (clean_memory now st)"
  let ?w = "seconds (365 * 86400)"
  have r: "\<forall>r \<in> set (reminders ?lt). r_status r = Some ''completed'' \<longrightarrow>
        (\<exists>c. r_completed_at r = Some c \<and> now - strptime c < ?w)"
  proof (intro ballI impI)
    fix r assume m: "r \<in> set (reminders ?lt)" and s: "r_status r = Some ''completed''"
    from s have "\<not> is_active r" by (simp add: is_active_def)
    with m have "case r_completed_at r of None \<Rightarrow> False | Some c \<Rightarrow> in_long_term_window now c"
      by (simp add: long_term_clean_memory)
    then show "\<exists>c. r_completed_at r = Some c \<and> now - strptime c < ?w"
      by (cases "r_completed_at r") (simp_all add: in_long_term_window_def days_less_iff)
  qed
  have e: "\<forall>e \<in> set (events ?lt). now - strptime (e_datetime e) < ?w"
    by (simp add: long_term_clean_memory in_long_term_window_def days_less_iff)
  have f: "\<forall>f \<in> set (facts ?lt). now - strptime (f_timestamp f) < ?w"
  proof
    fix f assume "f \<in> set (facts ?lt)"
    then have "f \<in> set (unique_facts []
                 (filter (\<lambda>f. in_long_term_window now (f_timestamp f)) (facts (long_term st))))"
      by (simp add: long_term_clean_memory)
    then have "f \<in> set (filter (\<lambda>f. in_long_term_window now (f_timestamp f)) (facts (long_term st)))"
      using set_unique_facts by blast
    then show "now - strptime (f_timestamp f) < ?w"
      by (simp add: in_long_term_window_def days_less_iff)
  qed
  have c: "\<forall>c \<in> set (conversations ?lt). now - strptime (c_timestamp c) < ?w"
    by (simp add: long_term_clean_memory in_long_term_window_def days_less_iff)
  have a: "filter is_active (reminders ?lt) = filter is_active (reminders (long_term st))"
    by (rule active_after_clean_memory)
  show ?thesis using r e f c a by (simp add: Let_def)
qed

text \<open>
  The pass on day 400 over \<open>aged_memory\<close>: the reminder completed on day 2, the event,
  the fact and the conversation of the first day are gone; the active reminder of the first
  day and the entries from day 300 on are left.
\<close>

theorem clean_memory_retention_witness:
  "reminders (long_term (clean_memory (seconds (day 400)) aged_memory))
     = [old_active, fresh_completed]
   \<and> events (long_term (clean_memory (seconds (day 400)) aged_memory))
     = [new_event (seconds (day 390)) ''concert'' (day 410)]
   \<and> map f_content (facts (long_term (clean_memory (seconds (day 400)) aged_memory)))
     = [''I moved to Lyon'']
   \<and> map c_text (conversations (long_term (clean_memory (seconds (day 400)) aged_memory)))
     = [''any plans'']
   \<and> filter is_active (reminders (long_term (clean_memory (seconds (day 400)) aged_memory)))
     = filter is_active (reminders (long_term aged_memory))"
  using clean_memory_retention [of "seconds (day 400)" aged_memory]
  by (simp add: long_term_clean_memory aged_memory_def initial_state_def old_active_def
      old_completed_def fresh_completed_def complete_def new_reminder_def new_event_def
      dentist_def tea_fact_def is_active_def in_long_term_window_def days_def
      strptime_def strftime_def seconds_def day_def LONG_TERM_WINDOW_DAYS_def Let_def)

section \<open>The contextual view\<close>

text \<open>
  C9. Recomputing the contextual tier a second time at the same clock reading changes
  nothing; the recomputation leaves the long-term tier as it is, and its result does not
  depend on the contextual tier it replaces (but for \<^verbatim>\<open>active_context\<close>, which
  it never writes): it is a function of the long-term collections and the clock reading.
\<close>

theorem update_contextual_memory_idempotent:
  "update_contextual_memory now (update_contextual_memory now st) = update_contextual_memory now st
   \<and> long_term (update_contextual_memory now st) = long_term st
   \<and> contextual (update_contextual_memory now (st\<lparr>contextual := c\<rparr>))
       = (contextual (update_contextual_memory now st))\<lparr>active_context := active_context c\<rparr>"
proof (intro conjI)
  show "update_contextual_memory now (update_contextual_memory now st)
          = update_contextual_memory now st"
    by (simp add: update_contextual_memory_def Let_def)
  show "long_term (update_contextual_memory now st) = long_term st"
    by (rule update_contextual_memory_fields)
  show "contextual (update_contextual_memory now (st\<lparr>contextual := c\<rparr>))
          = (contextual (update_contextual_memory now st))\<lparr>active_context := active_context c\<rparr>"
    by (simp add: update_contextual_memory_def Let_def)
qed

text \<open>
  C8. The code lists an event as upcoming when its time minus \<open>now\<close> is at most 86400
  seconds, with no lower bound. At 5000 seconds the event of 1000 seconds, which lies in
  the past, is in \<^verbatim>\<open>upcoming_events\<close>.
\<close>

theorem past_event_in_upcoming_events:
  "strptime (e_datetime dentist) < seconds 5000
   \<and> upcoming_events (contextual (update_contextual_memory (seconds 5000) with_dentist))
       = [dentist]"
  by (simp add: update_contextual_memory_def upcoming_of_def scenario_defs eval_defs)

section \<open>The scheduler\<close>



section \<open>Clearing the memory\<close>

text \<open>
  C2, as amended. When a pending \<^verbatim>\<open>clear_all_memory\<close> is held and the text has
  "yes", the call empties facts, events, reminders and conversations and also the
  preferences, and no pending action is held afterwards.
\<close>

theorem confirmed_clear_all_memory:
  assumes "pending_action st = Some p" and "action p = ''clear_all_memory''"
      and "sublist ''yes'' (lower text)"
  shows "long_term (fst (handle_action now st a text))
           = \<lparr>facts = [], preferences = Map.empty, events = [], reminders = [], conversations = []\<rparr>
         \<and> pending_action (fst (handle_action now st a text)) = None"
  using assms
  by (simp add: handle_action_def Let_def update_contextual_memory_fields pending_action_kept
      confirm_pending_def clear_all_memory_def)

text \<open>The confirmation "Yes please" in the state \<open>awaiting_clear_all\<close>.\<close>

theorem confirmed_clear_all_memory_witness:
  "pending_action awaiting_clear_all = Some (bare_intent ''clear_all_memory'' True)
   \<and> action (bare_intent ''clear_all_memory'' True) = ''clear_all_memory''
   \<and> sublist ''yes'' (lower ''Yes please'')
   \<and> long_term (fst (handle_action (seconds 1010) awaiting_clear_all
                        (answer_intent ''Okay'') ''Yes please''))
       = \<lparr>facts = [], preferences = Map.empty, events = [], reminders = [], conversations = []\<rparr>
   \<and> pending_action (fst (handle_action (seconds 1010) awaiting_clear_all
                             (answer_intent ''Okay'') ''Yes please'')) = None"
proof -
  have p: "pending_action awaiting_clear_all = Some (bare_intent ''clear_all_memory'' True)"
    by (simp add: awaiting_clear_all_def)
  have a: "action (bare_intent ''clear_all_memory'' True) = ''clear_all_memory''"
    by (simp add: bare_intent_def)
  show ?thesis
    using p a yes_in_yes_please confirmed_clear_all_memory [OF p a yes_in_yes_please] by simp
qed

text \<open>
  C2 as stated fails: the preference held before a confirmed
  \<^verbatim>\<open>clear_all_memory\<close> is gone after it.
\<close>

theorem clear_all_memory_drops_preferences:
  "preferences (long_term with_preferences) ''voice'' = Some ''Alex''
   \<and> preferences (long_term (run with_preferences
        [(seconds 1000, bare_intent ''clear_all_memory'' True, ''forget everything''),
         (seconds 1010, answer_intent ''Okay'', ''yes'')])) ''voice'' = None"
  by (simp add: scenario_defs eval_defs yes_in_yes no_yes_in_forget)

section \<open>The confirmation gate\<close>



text \<open>
  C3, as amended. When a pending action \<open>p\<close> is held and the text has no "yes", the
  utterance is handled as a new intent: the long-term memory and what is said are those of
  the same call with no pending action held. The pending action is not discarded: afterwards
  the pending action is the one the new intent stored, or else still \<open>p\<close>. Unless the new
  intent is itself \<^verbatim>\<open>clear_reminders\<close> or \<^verbatim>\<open>clear_all_memory\<close>, the
  reminders that were active are still active, in their order.
\<close>

theorem unconfirmed_pending_stays:
  assumes "pending_action st = Some p" and "\<not> sublist ''yes'' (lower text)"
  shows "long_term (fst (handle_action now st a text))
           = long_term (fst (handle_action now (st\<lparr>pending_action := None\<rparr>) a text))
       \<and> snd (handle_action now st a text)
           = snd (handle_action now (st\<lparr>pending_action := None\<rparr>) a text)
       \<and> pending_action (fst (handle_action now st a text))
           = (case pending_action (fst (handle_action now (st\<lparr>pending_action := None\<rparr>) a text))
              of None \<Rightarrow> Some p | Some x \<Rightarrow> Some x)
       \<and> (action a \<noteq> ''clear_reminders'' \<and> action a \<noteq> ''clear_all_memory'' \<longrightarrow>
            prefix (filter is_active (reminders (long_term st)))
                   (filter is_active (reminders (long_term (fst (handle_action now st a text))))))"
proof -
  have "st = st\<lparr>pending_action := Some p\<rparr>" using assms(1) by simp
  then have eq: "handle_action now st a text
              = keep_pending (Some p) (handle_action now (st\<lparr>pending_action := None\<rparr>) a text)"
    using handle_action_pending [where st = st and q = "Some p", OF assms(2)] by simp
  have pre: "prefix (filter is_active (reminders (long_term st)))
                   (filter is_active (reminders (long_term (fst (handle_action now st a text)))))"
    if "action a \<noteq> ''clear_reminders''" "action a \<noteq> ''clear_all_memory''"
  proof -
    let ?st2 = "update_contextual_memory now
                (add_conversation \<lparr>c_text = text, c_action = action a,
                                    c_timestamp = strftime now\<rparr> st)"
    have "handle_action now st a text = new_action now ?st2 a"
      using assms
      by (simp add: handle_action_def Let_def update_contextual_memory_fields pending_action_kept)
    moreover have "reminders (long_term ?st2) = reminders (long_term st)"
      by (simp add: update_contextual_memory_fields add_conversation_def)
    ultimately show ?thesis
      using active_prefix_new_action [OF that, of ?st2 now] by simp
  qed
  show ?thesis using pre by (simp add: eq keep_pending_def)
qed

text \<open>
  "no thanks" while the clearing of three reminders is pending: the three reminders stay
  active and the pending action stays held.
\<close>

theorem unconfirmed_pending_stays_witness:
  "pending_action awaiting_clear = Some (bare_intent ''clear_reminders'' True)
   \<and> \<not> sublist ''yes'' (lower ''no thanks'')
   \<and> filter is_active (reminders (long_term awaiting_clear)) = three_reminders
   \<and> reminders (long_term (fst (handle_action (seconds 1010) awaiting_clear
                                  (answer_intent ''Okay'') ''no thanks'')))
       = three_reminders
   \<and> pending_action (fst (handle_action (seconds 1010) awaiting_clear
                             (answer_intent ''Okay'') ''no thanks''))
       = Some (bare_intent ''clear_reminders'' True)
   \<and> prefix (filter is_active (reminders (long_term awaiting_clear)))
       (filter is_active (reminders (long_term
          (fst (handle_action (seconds 1010) awaiting_clear (answer_intent ''Okay'')
                  ''no thanks'')))))"
proof -
  have p: "pending_action awaiting_clear = Some (bare_intent ''clear_reminders'' True)"
    by (simp add: awaiting_clear_def)
  have a: "action (answer_intent ''Okay'') \<noteq> ''clear_reminders''
           \<and> action (answer_intent ''Okay'') \<noteq> ''clear_all_memory''"
    by (simp add: answer_intent_def bare_intent_def)
  have act: "filter is_active (reminders (long_term awaiting_clear)) = three_reminders"
    by (simp add: scenario_defs new_reminder_def is_active_def)
  have idle: "reminders (long_term (fst (handle_action (seconds 1010)
                 (awaiting_clear\<lparr>pending_action := None\<rparr>) (answer_intent ''Okay'') ''no thanks'')))
               = three_reminders
            \<and> pending_action (fst (handle_action (seconds 1010)
                 (awaiting_clear\<lparr>pending_action := None\<rparr>) (answer_intent ''Okay'') ''no thanks''))
               = None"
    by (simp add: scenario_defs eval_defs)
  note main = unconfirmed_pending_stays
                [OF p no_yes_in_no_thanks, of "seconds 1010" "answer_intent ''Okay''"]
  from main idle have rs: "reminders (long_term (fst (handle_action (seconds 1010) awaiting_clear
         (answer_intent ''Okay'') ''no thanks''))) = three_reminders"
    by simp
  from main idle have pd: "pending_action (fst (handle_action (seconds 1010) awaiting_clear
         (answer_intent ''Okay'') ''no thanks'')) = Some (bare_intent ''clear_reminders'' True)"
    by simp
  from main a have pre: "prefix (filter is_active (reminders (long_term awaiting_clear)))
       (filter is_active (reminders (long_term
          (fst (handle_action (seconds 1010) awaiting_clear (answer_intent ''Okay'')
                  ''no thanks'')))))"
    by blast
  show ?thesis
    by (intro conjI) (rule p no_yes_in_no_thanks act rs pd pre)+
qed

text \<open>
  C3 as stated fails: after "no thanks", answered by a \<^verbatim>\<open>general_query\<close>, the
  pending \<^verbatim>\<open>clear_reminders\<close> is still held, and a later text with "yes" executes
  it: no reminder is active any more.
\<close>

theorem no_thanks_keeps_pending:
  "\<not> sublist ''yes'' (lower ''no thanks'')
   \<and> action (answer_intent ''Okay'') = ''general_query''
   \<and> pending_action (fst (handle_action (seconds 1010) awaiting_clear
                             (answer_intent ''Okay'') ''no thanks''))
       = Some (bare_intent ''clear_reminders'' True)
   \<and> filter is_active (reminders (long_term (run awaiting_clear
        [(seconds 1010, answer_intent ''Okay'', ''no thanks''),
         (seconds 1020, answer_intent ''You are welcome'', ''yes that was all'')]))) = []"
  by (simp add: scenario_defs eval_defs no_yes_in_no_thanks yes_in_that_was_all)

text \<open>
  C1, as amended. A \<^verbatim>\<open>clear_reminders\<close> or \<^verbatim>\<open>clear_all_memory\<close>
  intent with \<^verbatim>\<open>needs_confirmation\<close>, dispatched while no pending action is
  held, changes the long-term memory only by appending the record of its own utterance to
  the conversations, and is stored as the pending action (for
  \<^verbatim>\<open>clear_reminders\<close>, when a reminder is active). Over any later calls, until a
  text with "yes" is processed while that pending action is held, the long-term memory is
  what the same calls make of it with no pending action held: the stored action is not
  executed, and what changes, the later intents change.
\<close>

theorem gated_clear_leaves_store:
  assumes "pending_action st = None"
      and "action a = ''clear_reminders'' \<or> action a = ''clear_all_memory''"
      and "needs_confirmation a"
      and "quiet a (fst (handle_action now st a text)) later"
  shows "long_term (fst (handle_action now st a text))
           = (long_term st)\<lparr>conversations := conversations (long_term st)
                @ [\<lparr>c_text = text, c_action = action a, c_timestamp = strftime now\<rparr>]\<rparr>
       \<and> pending_action (fst (handle_action now st a text))
           = (if action a = ''clear_reminders'' \<and> filter is_active (reminders (long_term st)) = []
              then None else Some a)
       \<and> long_term (run (fst (handle_action now st a text)) later)
           = long_term (run ((fst (handle_action now st a text))\<lparr>pending_action := None\<rparr>) later)"
proof (intro conjI)
  let ?st2 = "update_contextual_memory now
                (add_conversation \<lparr>c_text = text, c_action = action a,
                                    c_timestamp = strftime now\<rparr> st)"
  let ?st1 = "fst (handle_action now st a text)"
  have h: "handle_action now st a text = new_action now ?st2 a"
    using assms(1)
    by (simp add: handle_action_def Let_def update_contextual_memory_fields pending_action_kept)
  from assms(2,3) show "long_term ?st1 = (long_term st)\<lparr>conversations := conversations (long_term st)
                @ [\<lparr>c_text = text, c_action = action a, c_timestamp = strftime now\<rparr>]\<rparr>"
    unfolding h by (auto simp: new_action_def Let_def long_term_recorded)
  from assms(1,2,3) show pd: "pending_action ?st1
           = (if action a = ''clear_reminders'' \<and> filter is_active (reminders (long_term st)) = []
              then None else Some a)"
    unfolding h
    by (auto simp: new_action_def Let_def long_term_recorded update_contextual_memory_fields
        pending_action_kept add_conversation_def)
  show "long_term (run ?st1 later) = long_term (run (?st1\<lparr>pending_action := None\<rparr>) later)"
  proof (cases "pending_action ?st1")
    case None
    then have "?st1\<lparr>pending_action := None\<rparr> = ?st1" by simp
    then show ?thesis by simp
  next
    case (Some x)
    with pd have "x = a" by (simp split: if_splits)
    with Some have eq: "?st1\<lparr>pending_action := Some a\<rparr> = ?st1" by simp
    from assms(4) have "quiet a (?st1\<lparr>pending_action := Some a\<rparr>) later" by (simp only: eq)
    from run_quiet [OF this] show ?thesis by (simp only: eq)
  qed
qed

text \<open>
  "clear my reminders" with three active reminders, followed by a reminder for a time that
  has passed, which replaces the pending action, and by "yes", which confirms that
  reminder: the clearing is never run and four reminders are active.
\<close>

theorem gated_clear_leaves_store_witness:
  "pending_action three_active = None
   \<and> action (bare_intent ''clear_reminders'' True) = ''clear_reminders''
   \<and> needs_confirmation (bare_intent ''clear_reminders'' True)
   \<and> quiet (bare_intent ''clear_reminders'' True)
        (fst (handle_action (seconds 1000) three_active
                (bare_intent ''clear_reminders'' True) ''clear my reminders''))
        [(seconds 1010, remind_intent ''call dad'' 500 False, ''remind me to call dad''),
         (seconds 1020, answer_intent ''Okay'', ''yes'')]
   \<and> sublist ''yes'' (lower ''yes'')
   \<and> pending_action (fst (handle_action (seconds 1000) three_active
        (bare_intent ''clear_reminders'' True) ''clear my reminders''))
      = Some (bare_intent ''clear_reminders'' True)
   \<and> map c_text (conversations (long_term (fst (handle_action (seconds 1000) three_active
        (bare_intent ''clear_reminders'' True) ''clear my reminders'')))) = [''clear my reminders'']
   \<and> map r_message (filter is_active (reminders (long_term
        (run (fst (handle_action (seconds 1000) three_active
                (bare_intent ''clear_reminders'' True) ''clear my reminders''))
          [(seconds 1010, remind_intent ''call dad'' 500 False, ''remind me to call dad''),
           (seconds 1020, answer_intent ''Okay'', ''yes'')]))))
      = [''call mom'', ''buy milk'', ''pay rent'', ''call dad'']
   \<and> long_term (run (fst (handle_action (seconds 1000) three_active
        (bare_intent ''clear_reminders'' True) ''clear my reminders''))
          [(seconds 1010, remind_intent ''call dad'' 500 False, ''remind me to call dad''),
           (seconds 1020, answer_intent ''Okay'', ''yes'')])
     = long_term (run ((fst (handle_action (seconds 1000) three_active
        (bare_intent ''clear_reminders'' True) ''clear my reminders''))\<lparr>pending_action := None\<rparr>)
          [(seconds 1010, remind_intent ''call dad'' 500 False, ''remind me to call dad''),
           (seconds 1020, answer_intent ''Okay'', ''yes'')])"
proof -
  let ?a = "bare_intent ''clear_reminders'' True"
  let ?later = "[(seconds 1010, remind_intent ''call dad'' 500 False, ''remind me to call dad''),
                 (seconds 1020, answer_intent ''Okay'', ''yes'')]"
  let ?st1 = "fst (handle_action (seconds 1000) three_active ?a ''clear my reminders'')"
  have h1: "pending_action three_active = None" by (simp add: scenario_defs)
  have h2: "action ?a = ''clear_reminders'' \<or> action ?a = ''clear_all_memory''"
    by (simp add: bare_intent_def)
  have h2': "action ?a = ''clear_reminders''" by (simp add: bare_intent_def)
  have h3: "needs_confirmation ?a" by (simp add: bare_intent_def)
  have h4: "quiet ?a ?st1 ?later"
    by (simp add: scenario_defs eval_defs no_yes_in_clear no_yes_in_remind_dad yes_in_yes)
  have act: "map r_message (filter is_active (reminders (long_term (run ?st1 ?later))))
               = [''call mom'', ''buy milk'', ''pay rent'', ''call dad'']"
    by (simp add: scenario_defs eval_defs no_yes_in_clear no_yes_in_remind_dad yes_in_yes)
  have cs: "map c_text (conversations (long_term ?st1)) = [''clear my reminders'']"
    by (simp add: scenario_defs eval_defs no_yes_in_clear)
  have pd: "pending_action ?st1 = Some ?a"
    by (simp add: scenario_defs eval_defs no_yes_in_clear)
  from gated_clear_leaves_store [OF h1 h2 h3 h4]
  have eq: "long_term (run ?st1 ?later) = long_term (run (?st1\<lparr>pending_action := None\<rparr>) ?later)"
    by blast
  show ?thesis
    by (intro conjI) (rule h1 h2' h3 h4 yes_in_yes pd cs act eq)+
qed

text \<open>
  C1 as stated fails twice: the gated dispatch itself changes the conversations, and a later
  dispatch without "yes" (a new reminder) changes the reminders while the same pending
  action is still held.
\<close>

theorem gated_clear_records_conversation:
  "pending_action three_active = None
   \<and> conversations (long_term (fst (handle_action (seconds 1000) three_active
        (bare_intent ''clear_reminders'' True) ''clear my reminders'')))
      \<noteq> conversations (long_term three_active)
   \<and> pending_action (fst (handle_action (seconds 1000) three_active
        (bare_intent ''clear_reminders'' True) ''clear my reminders''))
      = Some (bare_intent ''clear_reminders'' True)
   \<and> length (reminders (long_term three_active)) = 3
   \<and> length (reminders (long_term (run three_active
        [(seconds 1000, bare_intent ''clear_reminders'' True, ''clear my reminders''),
         (seconds 1010, remind_intent ''call dad'' 8000 False, ''remind me to call dad'')]))) = 4
   \<and> pending_action (run three_active
        [(seconds 1000, bare_intent ''clear_reminders'' True, ''clear my reminders''),
         (seconds 1010, remind_intent ''call dad'' 8000 False, ''remind me to call dad'')])
      = Some (bare_intent ''clear_reminders'' True)"
  by (simp add: scenario_defs eval_defs no_yes_in_clear no_yes_in_remind_dad lower_messages)

section \<open>Insertions\<close>

text \<open>
  C4. Submitted twice on the immediate path, the reminder "call mom" for 5000 seconds is
  stored once. Submitted the second time with \<^verbatim>\<open>needs_confirmation\<close> and
  confirmed with "yes", it is stored twice: the branch of a confirmed pending
  \<^verbatim>\<open>set_reminder\<close> appends without looking for a duplicate.
\<close>

theorem confirmed_reminder_not_deduplicated:
  "map (\<lambda>r. (r_message r, r_datetime r))
     (reminders (long_term (run initial_state
        [(seconds 1000, remind_intent ''call mom'' 5000 False, ''remind me to call mom''),
         (seconds 1060, remind_intent ''call mom'' 5000 False, ''remind me to call mom'')])))
     = [(''call mom'', 5000)]
   \<and> map (\<lambda>r. (r_message r, r_datetime r))
     (reminders (long_term (run initial_state
        [(seconds 1000, remind_intent ''call mom'' 5000 False, ''remind me to call mom''),
         (seconds 1060, remind_intent ''call mom'' 5000 True, ''remind me to call mom''),
         (seconds 1070, answer_intent ''Okay'', ''yes'')])))
     = [(''call mom'', 5000), (''call mom'', 5000)]"
  by (simp add: scenario_defs eval_defs yes_in_yes no_yes_in_remind lower_messages)

text \<open>
  C5. A \<^verbatim>\<open>remember_fact\<close> intent that carries \<^verbatim>\<open>content\<close> and
  \<^verbatim>\<open>category\<close> in its \<^verbatim>\<open>data\<close> object, as the system prompt lays it out,
  stores no fact and says nothing: \<^verbatim>\<open>handle_action\<close> looks for the two keys at
  the top level of the intent.
\<close>

theorem fact_in_data_not_stored:
  "facts (long_term (fst (handle_action (seconds 1000) initial_state
            (fact_intent ''I like tea'' ''preference'') ''remember that I like tea''))) = []
   \<and> snd (handle_action (seconds 1000) initial_state
            (fact_intent ''I like tea'' ''preference'') ''remember that I like tea'') = []"
  by (simp add: scenario_defs eval_defs)

end
